theory Spec2Isabelle
  imports Main "HOL-Library.Word" "HOL-Library.Sublist"
begin

section \<open>Bytes, lengths and buffer chains\<close>

type_synonym byte = "8 word"
type_synonym uint32 = "32 word"
type_synonym uint64 = "64 word"

text \<open>
  Modelled from the spec: \<open>IOBuf\<close> (folly/io/IOBuf.h is not part of the sources at hand).
  The spec's ByteChain is "an ordered sequence of contiguous byte segments"; a chain is the
  list of its segments, head first.  \<open>IOBuf::create(n)\<close> gives one segment of capacity
  \<open>n\<close> and length 0; \<open>empty()\<close> holds when no segment carries a byte;
  \<open>clone()\<close> duplicates the chain; \<open>coalesce()\<close> collapses it into one segment;
  \<open>computeChainDataLength()\<close> is the 64-bit total length; \<open>isChained()\<close>
  holds when there is more than one segment; \<open>data()\<close>/\<open>length()\<close> read the head
  segment.
\<close>

type_synonym IOBuf = "byte list list"

definition IOBuf_create :: "nat \<Rightarrow> IOBuf" where
  "IOBuf_create capacity = [[]]"

definition IOBuf_empty :: "IOBuf \<Rightarrow> bool" where
  "IOBuf_empty data = (concat data = [])"

definition clone :: "IOBuf \<Rightarrow> IOBuf" where
  "clone data = data"

definition coalesce :: "IOBuf \<Rightarrow> IOBuf" where
  "coalesce data = [concat data]"

definition isChained :: "IOBuf \<Rightarrow> bool" where
  "isChained data = (1 < length data)"

definition computeChainDataLength :: "IOBuf \<Rightarrow> uint64" where
  "computeChainDataLength data = word_of_nat (length (concat data))"

fun IOBuf_data :: "IOBuf \<Rightarrow> byte list" where
  "IOBuf_data [] = []"
| "IOBuf_data (seg # rest) = seg"

text \<open>
  Modelled from the spec: \<open>UNKNOWN_UNCOMPRESSED_LENGTH\<close>, declared in
  folly/io/Compression.h, which is not part of the sources at hand.  The spec's base
  maximum is the "maximum representable length minus one (reserved for the Unknown
  sentinel)": the sentinel is the largest 64-bit value, the one that
  \<open>Codec::doMaxUncompressedLength\<close> leaves free.
\<close>

definition UNKNOWN_UNCOMPRESSED_LENGTH :: uint64 where
  "UNKNOWN_UNCOMPRESSED_LENGTH = - 1"

section \<open>Failures\<close>

text \<open>
  The two exception classes the code throws, each with its message, and the fatal
  assertion (\<open>CHECK\<close>, \<open>DCHECK\<close>), which aborts instead of unwinding.
  The spec's error names are read off the throw sites: InvalidArgument is
  \<open>std::invalid_argument\<close>; LengthTooLarge, InvalidLength and RuntimeError are all
  \<open>std::runtime_error\<close>, told apart by their messages.  \<open>out_of_range\<close> is the
  \<open>std::out_of_range\<close> with which the cursor of a chain refuses to move past the end.
\<close>

datatype failure =
    invalid_argument string
  | runtime_error string
  | check_failed string
  | out_of_range

text \<open>\<open>to<std::string>\<close> on an integer: decimal digits, with a minus sign.\<close>

fun digits :: "nat \<Rightarrow> string" where
  "digits n = (if n < 10 then [''0123456789'' ! n]
               else digits (n div 10) @ [''0123456789'' ! (n mod 10)])"

declare digits.simps [simp del]

definition to_string :: "int \<Rightarrow> string" where
  "to_string i = (if i < 0 then CHR ''-'' # digits (nat (- i)) else digits (nat i))"

section \<open>Compression levels and codec types\<close>

text \<open>
  Modelled from the spec: the level argument (folly/io/Compression.h, which declares
  \<open>COMPRESSION_LEVEL_FASTEST\<close>, \<open>COMPRESSION_LEVEL_DEFAULT\<close> and
  \<open>COMPRESSION_LEVEL_BEST\<close>, is not part of the sources at hand).  The spec's
  CompressionLevel is "either a small closed set of symbolic hints {Fastest, Default,
  Best} or an algorithm-specific integer".  The code takes the level as one \<open>int\<close>
  and the hints are \<open>int\<close> constants of that header, whose values the sources at
  hand do not give; here a hint and a number are kept apart, so that nothing is said
  of a number that is the value of a hint.
\<close>

datatype level =
    COMPRESSION_LEVEL_FASTEST
  | COMPRESSION_LEVEL_DEFAULT
  | COMPRESSION_LEVEL_BEST
  | Level int

text \<open>
  Modelled from the spec: \<open>CodecType\<close>, the closed enumeration {NoCompression,
  FastBlock, StreamingLowOverhead, StreamingGeneralPurpose} of Compression.h, in the
  order in which \<open>gCodecFactories\<close> lists the constructors.  A tag is the value of
  \<open>static_cast<size_t>(type)\<close>, so that a tag outside the enumeration can be written.
\<close>

type_synonym CodecType = nat

definition NO_COMPRESSION :: CodecType where "NO_COMPRESSION = 0"
definition LZ4 :: CodecType where "LZ4 = 1"
definition SNAPPY :: CodecType where "SNAPPY = 2"
definition ZLIB :: CodecType where "ZLIB = 3"
definition NUM_CODEC_TYPES :: nat where "NUM_CODEC_TYPES = 4"

text \<open>Constants of zlib.h.\<close>

definition Z_OK :: int where "Z_OK = 0"
definition Z_STREAM_END :: int where "Z_STREAM_END = 1"
definition Z_NEED_DICT :: int where "Z_NEED_DICT = 2"
definition Z_DATA_ERROR :: int where "Z_DATA_ERROR = - 3"
definition Z_MEM_ERROR :: int where "Z_MEM_ERROR = - 4"
definition Z_BUF_ERROR :: int where "Z_BUF_ERROR = - 5"
definition Z_NO_FLUSH :: int where "Z_NO_FLUSH = 0"
definition Z_FINISH :: int where "Z_FINISH = 4"
definition Z_DEFAULT_COMPRESSION :: int where "Z_DEFAULT_COMPRESSION = - 1"

section \<open>Codec instances and their constructors\<close>

text \<open>A codec object is its class together with the fields the class declares
  (\<open>highCompression_\<close> and \<open>level_\<close> in the source, written here without the
  trailing underscore).\<close>

datatype Codec =
    NoCompressionCodec
  | LZ4Codec (highCompression: bool)
  | SnappyCodec
  | ZlibCodec (zlib_level: int)

definition NoCompressionCodec_create :: "level \<Rightarrow> failure + Codec" where
  "NoCompressionCodec_create lvl =
     (let level = (case lvl of
                     COMPRESSION_LEVEL_DEFAULT \<Rightarrow> 0
                   | COMPRESSION_LEVEL_FASTEST \<Rightarrow> 0
                   | COMPRESSION_LEVEL_BEST \<Rightarrow> 0
                   | Level n \<Rightarrow> n)
      in if level \<noteq> 0
         then Inl (invalid_argument (''NoCompressionCodec: invalid level '' @ to_string level))
         else Inr NoCompressionCodec)"

definition LZ4Codec_create :: "level \<Rightarrow> failure + Codec" where
  "LZ4Codec_create lvl =
     (let level = (case lvl of
                     COMPRESSION_LEVEL_FASTEST \<Rightarrow> 1
                   | COMPRESSION_LEVEL_DEFAULT \<Rightarrow> 1
                   | COMPRESSION_LEVEL_BEST \<Rightarrow> 2
                   | Level n \<Rightarrow> n)
      in if level < 1 \<or> level > 2
         then Inl (invalid_argument (''LZ4Codec: invalid level: '' @ to_string level))
         else Inr (LZ4Codec (level > 1)))"

definition SnappyCodec_create :: "level \<Rightarrow> failure + Codec" where
  "SnappyCodec_create lvl =
     (let level = (case lvl of
                     COMPRESSION_LEVEL_FASTEST \<Rightarrow> 1
                   | COMPRESSION_LEVEL_DEFAULT \<Rightarrow> 1
                   | COMPRESSION_LEVEL_BEST \<Rightarrow> 1
                   | Level n \<Rightarrow> n)
      in if level \<noteq> 1
         then Inl (invalid_argument (''SnappyCodec: invalid level: '' @ to_string level))
         else Inr SnappyCodec)"

definition ZlibCodec_create :: "level \<Rightarrow> failure + Codec" where
  "ZlibCodec_create lvl =
     (let level = (case lvl of
                     COMPRESSION_LEVEL_FASTEST \<Rightarrow> 1
                   | COMPRESSION_LEVEL_DEFAULT \<Rightarrow> Z_DEFAULT_COMPRESSION
                   | COMPRESSION_LEVEL_BEST \<Rightarrow> 9
                   | Level n \<Rightarrow> n)
      in if level \<noteq> Z_DEFAULT_COMPRESSION \<and> (level < 0 \<or> level > 9)
         then Inl (invalid_argument (''ZlibCodec: invalid level: '' @ to_string level))
         else Inr (ZlibCodec level))"

text \<open>The virtual methods, dispatched on the class.\<close>

fun doType :: "Codec \<Rightarrow> CodecType" where
  "doType NoCompressionCodec = NO_COMPRESSION"
| "doType (LZ4Codec hc) = LZ4"
| "doType SnappyCodec = SNAPPY"
| "doType (ZlibCodec l) = ZLIB"

fun doNeedsUncompressedLength :: "Codec \<Rightarrow> bool" where
  "doNeedsUncompressedLength (LZ4Codec hc) = True"
| "doNeedsUncompressedLength c = False"

text \<open>
  \<open>LZ4Codec::doMaxUncompressedLength\<close> returns \<open>1.8 * (uint64_t(1) << 30)\<close>, a
  double converted to \<open>uint64_t\<close>: the product is 1932735283.2 (18 * 2^30 / 10) and
  the conversion drops the fraction.
\<close>

fun doMaxUncompressedLength :: "Codec \<Rightarrow> uint64" where
  "doMaxUncompressedLength (LZ4Codec hc) = 1932735283"
| "doMaxUncompressedLength SnappyCodec = 2 ^ 32 - 1"
| "doMaxUncompressedLength c = (- 1) - 1"

definition type :: "Codec \<Rightarrow> CodecType" where
  "type c = doType c"

definition needsUncompressedLength :: "Codec \<Rightarrow> bool" where
  "needsUncompressedLength c = doNeedsUncompressedLength c"

definition maxUncompressedLength :: "Codec \<Rightarrow> uint64" where
  "maxUncompressedLength c = doMaxUncompressedLength c"

section \<open>The external algorithms\<close>

text \<open>
  The source adapter of the snappy codec: \<open>available_\<close> counts the bytes left and
  \<open>cursor_\<close> is the position in the chain, kept as the segments still to be read.
\<close>

record IOBufSnappySource_rec =
  available :: nat
  cursor :: IOBuf

definition IOBufSnappySource :: "IOBuf \<Rightarrow> IOBufSnappySource_rec" where
  "IOBufSnappySource data =
     \<lparr> available = unat (computeChainDataLength data), cursor = data \<rparr>"

definition Available :: "IOBufSnappySource_rec \<Rightarrow> nat" where
  "Available source = available source"

text \<open>
  Modelled from the spec: the cursor (folly/io/Cursor.h is not part of the sources at
  hand), the spec's "cursor/reader utility over a ByteChain that can peek at the next
  contiguous span and skip forward".  \<open>peek()\<close> shows what is left of the first
  segment that has a byte left, and nothing at the end of the chain; \<open>skip(n)\<close>
  moves \<open>n\<close> bytes forward and throws \<open>std::out_of_range\<close> when fewer are left.
\<close>

fun Cursor_peek :: "IOBuf \<Rightarrow> byte list" where
  "Cursor_peek [] = []"
| "Cursor_peek (seg # rest) = (if seg = [] then Cursor_peek rest else seg)"

fun Cursor_skip :: "IOBuf \<Rightarrow> nat \<Rightarrow> failure + IOBuf" where
  "Cursor_skip [] n = (if n = 0 then Inr [] else Inl out_of_range)"
| "Cursor_skip (seg # rest) n =
     (if n \<le> length seg then Inr (drop n seg # rest)
      else Cursor_skip rest (n - length seg))"

definition Peek :: "IOBufSnappySource_rec \<Rightarrow> byte list" where
  "Peek source = Cursor_peek (cursor source)"

definition Skip :: "IOBufSnappySource_rec \<Rightarrow> nat \<Rightarrow> failure + IOBufSnappySource_rec" where
  "Skip source n =
     (if \<not> n \<le> available source then Inl (check_failed ''CHECK_LE(n, available_)'')
      else (case Cursor_skip (cursor source) n of
              Inl e \<Rightarrow> Inl e
            | Inr moved \<Rightarrow> Inr \<lparr> available = available source - n, cursor = moved \<rparr>))"

text \<open>
  What a reader gets out of a source through \<open>Available\<close>, \<open>Peek\<close> and
  \<open>Skip\<close>: as long as \<open>Available\<close> is positive it takes the span that \<open>Peek\<close>
  shows, no more of it than \<open>Available\<close> announces, and skips what it took.  It stops
  when \<open>Peek\<close> shows nothing or \<open>Skip\<close> fails.
\<close>

function pull :: "IOBufSnappySource_rec \<Rightarrow> byte list" where
  "pull source =
     (if Available source = 0 then []
      else let n = min (length (Peek source)) (Available source)
           in if n = 0 then []
              else (case Skip source n of
                      Inl e \<Rightarrow> []
                    | Inr rest \<Rightarrow> take n (Peek source) @ pull rest))"
  by pat_completeness auto

termination
  by (relation "measure Available")
     (auto simp: Skip_def Available_def split: if_splits sum.splits)

declare pull.simps [simp del]

text \<open>
  The \<open>z_stream\<close> of zlib.h, as far as the codec reads and writes it: \<open>next_in\<close> holds
  the \<open>avail_in\<close> bytes that are left of the current input segment, \<open>avail_out\<close> is the
  room left in the active output segment, \<open>zstate\<close> is the algorithm's own state.
\<close>

record 'z z_stream =
  next_in :: "byte list"
  avail_out :: nat
  total_in :: nat
  total_out :: nat
  msg :: string
  zstate :: 'z

definition avail_in :: "'z z_stream \<Rightarrow> nat" where
  "avail_in stream = length (next_in stream)"

text \<open>
  The primitives of lz4, snappy and zlib are not part of the repository; every routine
  below takes them as the parameter \<open>P\<close>.  A primitive that fills a buffer of the
  caller returns the content of that buffer next to its return value, and the codec
  keeps the first bytes of it, as many as it appends to the output:
  \<^item> \<open>LZ4_compress source isize\<close> and \<open>LZ4_compressHC source isize\<close>: return value and
    destination buffer;
  \<^item> \<open>LZ4_uncompress source osize\<close>: return value and destination buffer;
  \<^item> \<open>snappy_Compress source\<close>: bytes written and the sink's buffer;
  \<^item> \<open>snappy_GetUncompressedLength source\<close>: success, the length read, and the source
    as the call leaves it;
  \<^item> \<open>snappy_RawUncompress source\<close>: success and the destination buffer;
  \<^item> \<open>deflateInit level\<close> and \<open>inflateInit\<close>: return code and the initialised stream;
  \<^item> \<open>deflate stream flush\<close> and \<open>inflate stream flush\<close>: return code, the stream as
    the call leaves it, and the bytes written at \<open>next_out\<close>;
  \<^item> \<open>deflateEnd stream\<close> and \<open>inflateEnd stream\<close>: return code.
\<close>

record 'z prims =
  LZ4_compressBound :: "int \<Rightarrow> int"
  LZ4_compress :: "byte list \<Rightarrow> int \<Rightarrow> int \<times> byte list"
  LZ4_compressHC :: "byte list \<Rightarrow> int \<Rightarrow> int \<times> byte list"
  LZ4_uncompress :: "byte list \<Rightarrow> int \<Rightarrow> int \<times> byte list"
  snappy_MaxCompressedLength :: "nat \<Rightarrow> nat"
  snappy_Compress :: "IOBufSnappySource_rec \<Rightarrow> nat \<times> byte list"
  snappy_GetUncompressedLength :: "IOBufSnappySource_rec \<Rightarrow> bool \<times> uint32 \<times> IOBufSnappySource_rec"
  snappy_RawUncompress :: "IOBufSnappySource_rec \<Rightarrow> bool \<times> byte list"
  deflateInit :: "int \<Rightarrow> int \<times> 'z z_stream"
  deflateBound :: "'z z_stream \<Rightarrow> nat \<Rightarrow> nat"
  deflate :: "'z z_stream \<Rightarrow> int \<Rightarrow> int \<times> 'z z_stream \<times> byte list"
  deflateEnd :: "'z z_stream \<Rightarrow> int"
  inflateInit :: "int \<times> 'z z_stream"
  inflate :: "'z z_stream \<Rightarrow> int \<Rightarrow> int \<times> 'z z_stream \<times> byte list"
  inflateEnd :: "'z z_stream \<Rightarrow> int"

text \<open>The implicit conversions of a length to \<open>int\<close>, and of an \<open>int\<close>, a
  \<open>size_t\<close> or a \<open>uint64_t\<close> to \<open>uint32_t\<close>: the length and the capacity of a
  segment are 32-bit counts, so that \<open>IOBuf::create\<close> and \<open>append\<close> get their
  argument cut to 32 bits, and the lz4 primitives take and return \<open>int\<close>.\<close>

definition to_int :: "nat \<Rightarrow> int" where
  "to_int n = sint (word_of_nat n :: uint32)"

definition to_uint32 :: "int \<Rightarrow> nat" where
  "to_uint32 i = unat (word_of_int i :: uint32)"

definition size_to_uint32 :: "nat \<Rightarrow> nat" where
  "size_to_uint32 n = unat (word_of_nat n :: uint32)"

section \<open>No compression\<close>

definition NoCompressionCodec_doCompress :: "IOBuf \<Rightarrow> failure + IOBuf" where
  "NoCompressionCodec_doCompress data = Inr (clone data)"

definition NoCompressionCodec_doUncompress :: "IOBuf \<Rightarrow> uint64 \<Rightarrow> failure + IOBuf" where
  "NoCompressionCodec_doUncompress data uncompressedLength =
     (if uncompressedLength \<noteq> UNKNOWN_UNCOMPRESSED_LENGTH \<and>
         computeChainDataLength data \<noteq> uncompressedLength
      then Inl (runtime_error ''NoCompressionCodec: invalid uncompressed length'')
      else Inr (clone data))"

section \<open>LZ4\<close>

text \<open>\<open>hc\<close> is the field \<open>highCompression_\<close> of the instance.  The chain that
  reaches \<open>doCompress\<close> and \<open>doUncompress\<close> has a head segment; \<open>source\<close> is
  \<open>data->data()\<close> with its \<open>data->length()\<close> bytes.\<close>

definition LZ4Codec_doCompress :: "'z prims \<Rightarrow> bool \<Rightarrow> IOBuf \<Rightarrow> failure + IOBuf" where
  "LZ4Codec_doCompress P hc data0 =
     (let data = (if isChained data0 then coalesce (clone data0) else data0);
          source = IOBuf_data data;
          isize = to_int (length source);
          capacity = to_uint32 (LZ4_compressBound P isize);
          (n, dest) = (if hc then LZ4_compress P source isize
                       else LZ4_compressHC P source isize)
      in if \<not> 0 \<le> n then Inl (check_failed ''CHECK_GE(n, 0)'')
         else if \<not> nat n \<le> capacity then Inl (check_failed ''CHECK_LE(n, out->capacity())'')
         else Inr [take (nat n) dest])"

definition LZ4Codec_doUncompress :: "'z prims \<Rightarrow> IOBuf \<Rightarrow> uint64 \<Rightarrow> failure + IOBuf" where
  "LZ4Codec_doUncompress P data0 uncompressedLength =
     (let data = (if isChained data0 then coalesce (clone data0) else data0);
          source = IOBuf_data data;
          (n, dest) = LZ4_uncompress P source (sint (ucast uncompressedLength :: uint32))
      in if (word_of_int n :: uint32) \<noteq> word_of_nat (length source)
         then Inl (runtime_error (''LZ4 decompression returned invalid value '' @ to_string n))
         else Inr [take (size_to_uint32 (unat uncompressedLength)) dest])"

section \<open>Snappy\<close>

text \<open>The output segment is created with the bound of
  \<open>snappy::MaxCompressedLength\<close>, a \<open>size_t\<close>, cut to the 32 bits of a capacity;
  the \<open>size_t\<close> \<open>n\<close> that \<open>snappy::Compress\<close> returns is compared with that
  capacity and then appended, cut to 32 bits likewise.\<close>

definition SnappyCodec_doCompress :: "'z prims \<Rightarrow> IOBuf \<Rightarrow> failure + IOBuf" where
  "SnappyCodec_doCompress P data =
     (let source = IOBufSnappySource data;
          capacity = size_to_uint32 (snappy_MaxCompressedLength P (Available source));
          (n, dest) = snappy_Compress P source
      in if \<not> n \<le> capacity then Inl (check_failed ''CHECK_LE(n, out->capacity())'')
         else Inr [take (size_to_uint32 n) dest])"

definition SnappyCodec_doUncompress :: "'z prims \<Rightarrow> IOBuf \<Rightarrow> uint64 \<Rightarrow> failure + IOBuf" where
  "SnappyCodec_doUncompress P data uncompressedLength =
     (case snappy_GetUncompressedLength P (IOBufSnappySource data) of
        (ok, actualUncompressedLength, consumed) \<Rightarrow>
          if \<not> ok then Inl (runtime_error ''snappy::GetUncompressedLength failed'')
          else if uncompressedLength \<noteq> UNKNOWN_UNCOMPRESSED_LENGTH \<and>
                  uncompressedLength \<noteq> ucast actualUncompressedLength
          then Inl (runtime_error ''snappy: invalid uncompressed length'')
          else (case snappy_RawUncompress P (IOBufSnappySource data) of
                  (ok2, dest) \<Rightarrow>
                    if \<not> ok2 then Inl (runtime_error ''snappy::RawUncompress failed'')
                    else Inr [take (unat actualUncompressedLength) dest]))"

section \<open>Zlib\<close>

text \<open>
  A segment of the output chain is kept as the bytes written into it so far.  The source
  appends a new segment at its full length and cuts the unwritten tail of the last one
  at the end (\<open>trimEnd(stream.avail_out)\<close>); a new segment is only added once the
  active one is full, so the bytes written are the segment's final content.
\<close>

definition maxSingleStepLength :: nat where
  "maxSingleStepLength = 64 * 2 ^ 20"

definition defaultBufferLength :: nat where
  "defaultBufferLength = 4 * 2 ^ 20"

definition addOutputBuffer :: "'z z_stream \<Rightarrow> nat \<Rightarrow> failure + ('z z_stream \<times> byte list)" where
  "addOutputBuffer stream len =
     (if avail_out stream \<noteq> 0 then Inl (check_failed ''CHECK_EQ(stream->avail_out, 0)'')
      else Inr (stream\<lparr>avail_out := len\<rparr>, []))"

text \<open>\<open>head->prependChain(buf)\<close> puts \<open>buf\<close> before the head of the circular chain,
  which is after its last segment.\<close>

definition prependChain :: "IOBuf \<Rightarrow> byte list \<Rightarrow> IOBuf" where
  "prependChain head buf = head @ [buf]"

text \<open>The bytes a primitive writes at \<open>next_out\<close> land in the last segment.\<close>

definition written :: "IOBuf \<Rightarrow> byte list \<Rightarrow> IOBuf" where
  "written head bytes = (if head = [] then [bytes] else butlast head @ [last head @ bytes])"

text \<open>The first step of \<open>doInflate\<close> and of both deflate loops: grow the chain when the
  active segment is full.\<close>

definition grow :: "'z z_stream \<Rightarrow> IOBuf \<Rightarrow> nat \<Rightarrow> failure + ('z z_stream \<times> IOBuf)" where
  "grow stream head bufferLength =
     (if avail_out stream = 0
      then (case addOutputBuffer stream bufferLength of
              Inl e \<Rightarrow> Inl e
            | Inr (stream', buf) \<Rightarrow> Inr (stream', prependChain head buf))
      else Inr (stream, head))"

text \<open>
  The routines that work on a \<open>z_stream\<close> return the stream and the output chain as
  they leave them, also when they throw: the cleanup at scope exit reads the stream.
\<close>

type_synonym 'z zbufs = "'z z_stream \<times> IOBuf"

definition doInflate ::
  "'z prims \<Rightarrow> 'z zbufs \<Rightarrow> nat \<Rightarrow> 'z zbufs \<times> (failure + bool)" where
  "doInflate P sh bufferLength =
     (case grow (fst sh) (snd sh) bufferLength of
        Inl e \<Rightarrow> (sh, Inl e)
      | Inr (stream, head) \<Rightarrow>
          (case inflate P stream Z_NO_FLUSH of
             (rc, stream', bytes) \<Rightarrow>
               let sh' = (stream', written head bytes)
               in if rc = Z_OK then (sh', Inr False)
                  else if rc = Z_STREAM_END then (sh', Inr True)
                  else if rc = Z_BUF_ERROR \<or> rc = Z_NEED_DICT \<or> rc = Z_DATA_ERROR \<or>
                          rc = Z_MEM_ERROR
                  then (sh', Inl (runtime_error
                          (''ZlibCodec: inflate error: '' @ to_string rc @ '': '' @ msg stream')))
                  else (sh', Inl (check_failed ''CHECK(false)''))))"

text \<open>The loop \<open>while (stream.avail_in != 0)\<close> of \<open>doUncompress\<close>.  It runs for as
  long as the algorithm leaves input behind, so it need not return.\<close>

partial_function (option) inflate_segment ::
  "'z prims \<Rightarrow> 'z zbufs \<Rightarrow> bool \<Rightarrow> ('z zbufs \<times> (failure + bool)) option" where
  "inflate_segment P sh streamEnd =
     (if avail_in (fst sh) = 0 then Some (sh, Inr streamEnd)
      else if streamEnd
      then Some (sh, Inl (runtime_error ''ZlibCodec: junk after end of data''))
      else (case doInflate P sh defaultBufferLength of
              (sh', Inl e) \<Rightarrow> Some (sh', Inl e)
            | (sh', Inr streamEnd') \<Rightarrow> inflate_segment P sh' streamEnd'))"

declare inflate_segment.simps [code]

text \<open>The loop \<open>for (auto& range : *data)\<close> of \<open>doUncompress\<close>.\<close>

fun inflate_ranges ::
  "'z prims \<Rightarrow> IOBuf \<Rightarrow> 'z zbufs \<Rightarrow> bool \<Rightarrow> ('z zbufs \<times> (failure + bool)) option" where
  "inflate_ranges P [] sh streamEnd = Some (sh, Inr streamEnd)"
| "inflate_ranges P (seg # rest) sh streamEnd =
     (if seg = [] then inflate_ranges P rest sh streamEnd
      else (case inflate_segment P ((fst sh)\<lparr>next_in := seg\<rparr>, snd sh) streamEnd of
              None \<Rightarrow> None
            | Some (sh', Inl e) \<Rightarrow> Some (sh', Inl e)
            | Some (sh', Inr streamEnd') \<Rightarrow> inflate_ranges P rest sh' streamEnd'))"

text \<open>The loop \<open>while (!streamEnd)\<close> of \<open>doUncompress\<close>.\<close>

partial_function (option) inflate_rest ::
  "'z prims \<Rightarrow> 'z zbufs \<Rightarrow> bool \<Rightarrow> ('z zbufs \<times> (failure + bool)) option" where
  "inflate_rest P sh streamEnd =
     (if streamEnd then Some (sh, Inr streamEnd)
      else (case doInflate P sh defaultBufferLength of
              (sh', Inl e) \<Rightarrow> Some (sh', Inl e)
            | (sh', Inr streamEnd') \<Rightarrow> inflate_rest P sh' streamEnd'))"

declare inflate_rest.simps [code]

text \<open>
  \<open>SCOPE_EXIT\<close> of \<open>doUncompress\<close> and \<open>doCompress\<close>: on return and on a thrown
  exception the stream is released and the return code \<open>rc\<close> of \<open>inflateEnd\<close>
  (\<open>deflateEnd\<close>) is checked; a failed \<open>CHECK\<close> in the body aborts, and nothing runs
  after it.
\<close>

definition end_check :: "int \<Rightarrow> bool \<Rightarrow> failure + IOBuf \<Rightarrow> failure + IOBuf" where
  "end_check rc success r =
     (if rc = Z_OK \<or> (\<not> success \<and> rc = Z_DATA_ERROR) then r
      else Inl (check_failed ''CHECK(rc == Z_OK || (!success && rc == Z_DATA_ERROR))''))"

definition scope_exit :: "int \<Rightarrow> failure + IOBuf \<Rightarrow> failure + IOBuf" where
  "scope_exit rc r =
     (case r of
        Inl (check_failed m) \<Rightarrow> r
      | Inl e \<Rightarrow> end_check rc False r
      | Inr out \<Rightarrow> end_check rc True r)"

text \<open>The first output segment of \<open>doUncompress\<close>: as long as the declared length
  when that is known and at most 64 MiB, else 4 MiB.\<close>

definition inflate_start :: "'z z_stream \<Rightarrow> uint64 \<Rightarrow> failure + 'z zbufs" where
  "inflate_start stream uncompressedLength =
     (case addOutputBuffer stream
             (if uncompressedLength \<noteq> UNKNOWN_UNCOMPRESSED_LENGTH \<and>
                 unat uncompressedLength \<le> maxSingleStepLength
              then unat uncompressedLength else defaultBufferLength) of
        Inl e \<Rightarrow> Inl e
      | Inr (stream1, buf) \<Rightarrow> Inr (stream1, [buf]))"

text \<open>The body of \<open>doUncompress\<close> between \<open>SCOPE_EXIT\<close> and the return.\<close>

definition inflate_body ::
  "'z prims \<Rightarrow> 'z z_stream \<Rightarrow> IOBuf \<Rightarrow> uint64 \<Rightarrow> ('z z_stream \<times> (failure + IOBuf)) option" where
  "inflate_body P stream data uncompressedLength =
     (case inflate_start stream uncompressedLength of
        Inl e \<Rightarrow> Some (stream, Inl e)
      | Inr sh0 \<Rightarrow>
          (case inflate_ranges P data sh0 False of
             None \<Rightarrow> None
           | Some (sh, Inl e) \<Rightarrow> Some (fst sh, Inl e)
           | Some (sh, Inr streamEnd) \<Rightarrow>
               (case inflate_rest P sh streamEnd of
                  None \<Rightarrow> None
                | Some (sh', Inl e) \<Rightarrow> Some (fst sh', Inl e)
                | Some (sh', Inr streamEnd') \<Rightarrow>
                    if uncompressedLength \<noteq> UNKNOWN_UNCOMPRESSED_LENGTH \<and>
                       unat uncompressedLength \<noteq> total_out (fst sh')
                    then Some (fst sh', Inl (runtime_error ''ZlibCodec: invalid uncompressed length''))
                    else Some (fst sh', Inr (snd sh')))))"

text \<open>The fields that \<open>doCompress\<close> and \<open>doUncompress\<close> clear after the
  initialisation.\<close>

definition cleared :: "'z z_stream \<Rightarrow> 'z z_stream" where
  "cleared stream0 = stream0\<lparr>next_in := [], avail_out := 0, total_in := 0, total_out := 0\<rparr>"

definition ZlibCodec_doUncompress ::
  "'z prims \<Rightarrow> IOBuf \<Rightarrow> uint64 \<Rightarrow> (failure + IOBuf) option" where
  "ZlibCodec_doUncompress P data uncompressedLength =
     (case inflateInit P of
        (rc, stream0) \<Rightarrow>
          if rc \<noteq> Z_OK
          then Some (Inl (runtime_error
                 (''ZlibCodec: inflateInit error: '' @ to_string rc @ '': '' @ msg stream0)))
          else let stream = cleared stream0
               in (case inflate_body P stream data uncompressedLength of
                     None \<Rightarrow> None
                   | Some (stream', r) \<Rightarrow> Some (scope_exit (inflateEnd P stream') r)))"

text \<open>The loop \<open>while (stream.avail_in != 0)\<close> of \<open>doCompress\<close>.\<close>

partial_function (option) deflate_segment ::
  "'z prims \<Rightarrow> 'z zbufs \<Rightarrow> ('z zbufs \<times> (failure + unit)) option" where
  "deflate_segment P sh =
     (if avail_in (fst sh) = 0 then Some (sh, Inr ())
      else (case grow (fst sh) (snd sh) defaultBufferLength of
              Inl e \<Rightarrow> Some (sh, Inl e)
            | Inr (stream, head) \<Rightarrow>
                (case deflate P stream Z_NO_FLUSH of
                   (rc, stream', bytes) \<Rightarrow>
                     if rc \<noteq> Z_OK
                     then Some ((stream', written head bytes), Inl (check_failed ''CHECK_EQ(rc, Z_OK)''))
                     else deflate_segment P (stream', written head bytes))))"

declare deflate_segment.simps [code]

text \<open>The loop \<open>for (auto& range : *data)\<close> of \<open>doCompress\<close>.\<close>

fun deflate_ranges ::
  "'z prims \<Rightarrow> IOBuf \<Rightarrow> 'z zbufs \<Rightarrow> ('z zbufs \<times> (failure + unit)) option" where
  "deflate_ranges P [] sh = Some (sh, Inr ())"
| "deflate_ranges P (seg # rest) sh =
     (if seg = [] then deflate_ranges P rest sh
      else (case deflate_segment P ((fst sh)\<lparr>next_in := seg\<rparr>, snd sh) of
              None \<Rightarrow> None
            | Some (sh', Inl e) \<Rightarrow> Some (sh', Inl e)
            | Some (sh', Inr u) \<Rightarrow> deflate_ranges P rest sh'))"

text \<open>The loop \<open>do ... while (rc == Z_OK)\<close> of \<open>doCompress\<close>; it returns the last
  return code.\<close>

partial_function (option) deflate_finish ::
  "'z prims \<Rightarrow> 'z zbufs \<Rightarrow> ('z zbufs \<times> (failure + int)) option" where
  "deflate_finish P sh =
     (case grow (fst sh) (snd sh) defaultBufferLength of
        Inl e \<Rightarrow> Some (sh, Inl e)
      | Inr (stream, head) \<Rightarrow>
          (case deflate P stream Z_FINISH of
             (rc, stream', bytes) \<Rightarrow>
               if rc = Z_OK then deflate_finish P (stream', written head bytes)
               else Some ((stream', written head bytes), Inr rc)))"

declare deflate_finish.simps [code]

text \<open>The first output segment of \<open>doCompress\<close>: as long as the bound that
  \<open>deflateBound\<close> gives when that is at most 64 MiB, else 4 MiB.\<close>

definition deflate_start :: "'z prims \<Rightarrow> 'z z_stream \<Rightarrow> IOBuf \<Rightarrow> failure + 'z zbufs" where
  "deflate_start P stream data =
     (let uncompressedLength = computeChainDataLength data;
          maxCompressedLength = deflateBound P stream (unat uncompressedLength)
      in case addOutputBuffer stream
                (if maxCompressedLength \<le> maxSingleStepLength
                 then maxCompressedLength else defaultBufferLength) of
           Inl e \<Rightarrow> Inl e
         | Inr (stream1, buf) \<Rightarrow> Inr (stream1, [buf]))"

text \<open>The body of \<open>doCompress\<close> between \<open>SCOPE_EXIT\<close> and the return.\<close>

definition deflate_body ::
  "'z prims \<Rightarrow> 'z z_stream \<Rightarrow> IOBuf \<Rightarrow> ('z z_stream \<times> (failure + IOBuf)) option" where
  "deflate_body P stream data =
     (case deflate_start P stream data of
        Inl e \<Rightarrow> Some (stream, Inl e)
      | Inr sh0 \<Rightarrow>
          (case deflate_ranges P data sh0 of
             None \<Rightarrow> None
           | Some (sh, Inl e) \<Rightarrow> Some (fst sh, Inl e)
           | Some (sh, Inr u) \<Rightarrow>
               (case deflate_finish P sh of
                  None \<Rightarrow> None
                | Some (sh', Inl e) \<Rightarrow> Some (fst sh', Inl e)
                | Some (sh', Inr rc) \<Rightarrow>
                    if rc \<noteq> Z_STREAM_END
                    then Some (fst sh', Inl (check_failed ''CHECK_EQ(rc, Z_STREAM_END)''))
                    else Some (fst sh', Inr (snd sh')))))"

definition ZlibCodec_doCompress :: "'z prims \<Rightarrow> int \<Rightarrow> IOBuf \<Rightarrow> (failure + IOBuf) option" where
  "ZlibCodec_doCompress P lvl data =
     (case deflateInit P lvl of
        (rc, stream0) \<Rightarrow>
          if rc \<noteq> Z_OK
          then Some (Inl (runtime_error
                 (''ZlibCodec: deflateInit error: '' @ to_string rc @ '': '' @ msg stream0)))
          else let stream = cleared stream0
               in (case deflate_body P stream data of
                     None \<Rightarrow> None
                   | Some (stream', r) \<Rightarrow> Some (scope_exit (deflateEnd P stream') r)))"

section \<open>The codec's public operations\<close>

fun doCompress :: "'z prims \<Rightarrow> Codec \<Rightarrow> IOBuf \<Rightarrow> (failure + IOBuf) option" where
  "doCompress P NoCompressionCodec data = Some (NoCompressionCodec_doCompress data)"
| "doCompress P (LZ4Codec hc) data = Some (LZ4Codec_doCompress P hc data)"
| "doCompress P SnappyCodec data = Some (SnappyCodec_doCompress P data)"
| "doCompress P (ZlibCodec lvl) data = ZlibCodec_doCompress P lvl data"

fun doUncompress :: "'z prims \<Rightarrow> Codec \<Rightarrow> IOBuf \<Rightarrow> uint64 \<Rightarrow> (failure + IOBuf) option" where
  "doUncompress P NoCompressionCodec data n = Some (NoCompressionCodec_doUncompress data n)"
| "doUncompress P (LZ4Codec hc) data n = Some (LZ4Codec_doUncompress P data n)"
| "doUncompress P SnappyCodec data n = Some (SnappyCodec_doUncompress P data n)"
| "doUncompress P (ZlibCodec lvl) data n = ZlibCodec_doUncompress P data n"

text \<open>\<open>Codec::compress\<close> and \<open>Codec::uncompress\<close>.  The result is \<open>None\<close> when the
  call does not return.  \<open>length_check\<close> is the first statement of \<open>uncompress\<close>,
  with the exception it throws, if any.\<close>

definition compress :: "'z prims \<Rightarrow> Codec \<Rightarrow> IOBuf \<Rightarrow> (failure + IOBuf) option" where
  "compress P c data =
     (if \<not> IOBuf_empty data then doCompress P c data else Some (Inr (IOBuf_create 0)))"

definition length_check :: "Codec \<Rightarrow> uint64 \<Rightarrow> failure option" where
  "length_check c uncompressedLength =
     (if uncompressedLength = UNKNOWN_UNCOMPRESSED_LENGTH
      then (if needsUncompressedLength c
            then Some (invalid_argument ''Codec: uncompressed length required'')
            else None)
      else if uncompressedLength > maxUncompressedLength c
      then Some (runtime_error ''Codec: uncompressed length too large'')
      else None)"

definition uncompress ::
  "'z prims \<Rightarrow> Codec \<Rightarrow> IOBuf \<Rightarrow> uint64 \<Rightarrow> (failure + IOBuf) option" where
  "uncompress P c data uncompressedLength =
     (case length_check c uncompressedLength of
        Some e \<Rightarrow> Some (Inl e)
      | None \<Rightarrow>
          if IOBuf_empty data
          then (if uncompressedLength \<noteq> UNKNOWN_UNCOMPRESSED_LENGTH \<and> uncompressedLength \<noteq> 0
                then Some (Inl (runtime_error ''Codec: invalid uncompressed length''))
                else Some (Inr (IOBuf_create 0)))
          else doUncompress P c data uncompressedLength)"

section \<open>The registry\<close>

type_synonym CodecFactory = "level \<Rightarrow> failure + Codec"

text \<open>The array has \<open>NUM_CODEC_TYPES\<close> entries; an entry without an initialiser is
  null.\<close>

definition gCodecFactories :: "CodecFactory option list" where
  "gCodecFactories =
     [Some NoCompressionCodec_create, Some LZ4Codec_create,
      Some SnappyCodec_create, Some ZlibCodec_create]"

definition factory_at :: "CodecFactory option list \<Rightarrow> nat \<Rightarrow> CodecFactory option" where
  "factory_at table idx = (if idx < length table then table ! idx else None)"

text \<open>\<open>getCodec\<close>, with the table it reads made explicit.\<close>

definition getCodec_from ::
  "CodecFactory option list \<Rightarrow> CodecType \<Rightarrow> level \<Rightarrow> failure + Codec" where
  "getCodec_from table idx lvl =
     (if idx \<ge> NUM_CODEC_TYPES
      then Inl (invalid_argument
             (''Compression type '' @ to_string (int idx) @ '' not supported''))
      else (case factory_at table idx of
              None \<Rightarrow> Inl (invalid_argument
                        (''Compression type '' @ to_string (int idx) @ '' not supported''))
            | Some factory \<Rightarrow>
                (case factory lvl of
                   Inl e \<Rightarrow> Inl e
                 | Inr codec \<Rightarrow>
                     if type codec \<noteq> idx
                     then Inl (check_failed ''DCHECK_EQ(static_cast<size_t>(codec->type()), idx)'')
                     else Inr codec)))"

definition getCodec :: "CodecType \<Rightarrow> level \<Rightarrow> failure + Codec" where
  "getCodec idx lvl = getCodec_from gCodecFactories idx lvl"

section \<open>A stored-format instance of the primitives\<close>

text \<open>
  An instance of the parameter \<open>P\<close> on which the theorems below are exercised.  Its
  lz4 keeps the bytes as they are; its snappy, which reads its source through
  \<open>Available\<close>, \<open>Peek\<close> and \<open>Skip\<close>, puts the length in four bytes, low byte
  first, before the bytes; its zlib writes every byte after a tag 1 and closes the
  stream with a tag 0, one input byte per call.
\<close>

definition stored_LZ4_compress :: "byte list \<Rightarrow> int \<Rightarrow> int \<times> byte list" where
  "stored_LZ4_compress source isize = (isize, take (nat isize) source)"

definition stored_LZ4_uncompress :: "byte list \<Rightarrow> int \<Rightarrow> int \<times> byte list" where
  "stored_LZ4_uncompress source osize = (osize, take (nat osize) source)"

definition le32 :: "uint32 \<Rightarrow> byte list" where
  "le32 n = [ucast n, ucast (drop_bit 8 n), ucast (drop_bit 16 n), ucast (drop_bit 24 n)]"

fun le32_read :: "byte list \<Rightarrow> uint32 option" where
  "le32_read (a # b # c # d # rest) =
     Some (ucast a + push_bit 8 (ucast b) + push_bit 16 (ucast c) + push_bit 24 (ucast d))"
| "le32_read bytes = None"

definition stored_snappy_Compress :: "IOBufSnappySource_rec \<Rightarrow> nat \<times> byte list" where
  "stored_snappy_Compress source =
     (let n = Available source
      in (4 + n, le32 (word_of_nat n) @ take n (pull source)))"

definition stored_snappy_GetUncompressedLength ::
  "IOBufSnappySource_rec \<Rightarrow> bool \<times> uint32 \<times> IOBufSnappySource_rec" where
  "stored_snappy_GetUncompressedLength source =
     (case le32_read (pull source) of
        None \<Rightarrow> (False, 0, source)
      | Some n \<Rightarrow> (True, n, \<lparr> available = Available source - 4,
                              cursor = [drop 4 (pull source)] \<rparr>))"

definition stored_snappy_RawUncompress :: "IOBufSnappySource_rec \<Rightarrow> bool \<times> byte list" where
  "stored_snappy_RawUncompress source =
     (case le32_read (pull source) of
        None \<Rightarrow> (False, [])
      | Some n \<Rightarrow> (length (pull source) = 4 + unat n, drop 4 (pull source)))"

record stored_z =
  pend :: "byte list"
  data_next :: bool
  ended :: bool

definition stored_init :: "stored_z z_stream" where
  "stored_init =
     \<lparr> next_in = [], avail_out = 0, total_in = 0, total_out = 0, msg = [],
       zstate = \<lparr> pend = [], data_next = False, ended = False \<rparr> \<rparr>"

definition stored_deflate ::
  "stored_z z_stream \<Rightarrow> int \<Rightarrow> int \<times> stored_z z_stream \<times> byte list" where
  "stored_deflate s flush =
     (let z = zstate s;
          (pend1, in1, ended1) =
             (if pend z \<noteq> [] then (pend z, next_in s, ended z)
              else (case next_in s of
                      b # r \<Rightarrow> ([1, b], r, ended z)
                    | [] \<Rightarrow> if flush = Z_FINISH \<and> \<not> ended z then ([0], [], True)
                            else ([], [], ended z)));
          w = take (avail_out s) pend1;
          s' = s\<lparr> next_in := in1,
                  avail_out := avail_out s - length w,
                  total_in := total_in s + (length (next_in s) - length in1),
                  total_out := total_out s + length w,
                  zstate := z\<lparr> pend := drop (avail_out s) pend1, ended := ended1 \<rparr> \<rparr>
      in (if w = [] \<and> length in1 = length (next_in s) then Z_BUF_ERROR
          else if flush = Z_FINISH \<and> ended1 \<and> length pend1 \<le> avail_out s \<and> in1 = []
          then Z_STREAM_END
          else Z_OK, s', w))"

definition stored_inflate ::
  "stored_z z_stream \<Rightarrow> int \<Rightarrow> int \<times> stored_z z_stream \<times> byte list" where
  "stored_inflate s flush =
     (let z = zstate s
      in if ended z then (Z_STREAM_END, s, [])
         else (case next_in s of
                 [] \<Rightarrow> (Z_BUF_ERROR, s, [])
               | t # r \<Rightarrow>
                   if data_next z
                   then (if avail_out s = 0 then (Z_BUF_ERROR, s, [])
                         else (Z_OK,
                               s\<lparr> next_in := r, avail_out := avail_out s - 1,
                                  total_in := total_in s + 1, total_out := total_out s + 1,
                                  zstate := z\<lparr> data_next := False \<rparr> \<rparr>,
                               [t]))
                   else if t = 0
                   then (Z_STREAM_END,
                         s\<lparr> next_in := r, total_in := total_in s + 1,
                            zstate := z\<lparr> ended := True \<rparr> \<rparr>, [])
                   else if t = 1
                   then (Z_OK,
                         s\<lparr> next_in := r, total_in := total_in s + 1,
                            zstate := z\<lparr> data_next := True \<rparr> \<rparr>, [])
                   else (Z_DATA_ERROR, s\<lparr> msg := ''invalid block type'' \<rparr>, [])))"

definition stored :: "stored_z prims" where
  "stored =
     \<lparr> LZ4_compressBound = (\<lambda>isize. isize + isize div 255 + 16),
       LZ4_compress = stored_LZ4_compress,
       LZ4_compressHC = stored_LZ4_compress,
       LZ4_uncompress = stored_LZ4_uncompress,
       snappy_MaxCompressedLength = (\<lambda>n. 32 + n + n div 6),
       snappy_Compress = stored_snappy_Compress,
       snappy_GetUncompressedLength = stored_snappy_GetUncompressedLength,
       snappy_RawUncompress = stored_snappy_RawUncompress,
       deflateInit = (\<lambda>lvl. (Z_OK, stored_init)),
       deflateBound = (\<lambda>s n. 2 * n + 1),
       deflate = stored_deflate,
       deflateEnd = (\<lambda>s. if ended (zstate s) \<and> pend (zstate s) = [] then Z_OK else Z_DATA_ERROR),
       inflateInit = (Z_OK, stored_init),
       inflate = stored_inflate,
       inflateEnd = (\<lambda>s. Z_OK) \<rparr>"

text \<open>The 11 bytes of the text "hello world".\<close>

definition hello_world :: "byte list" where
  "hello_world = map of_char ''hello world''"

section \<open>Round trips and what they ask of the primitives\<close>










text \<open>The stored-format zlib against these contracts: its complete streams, and what
  its stream states have taken and given.\<close>

definition tagged :: "byte list \<Rightarrow> byte list" where
  "tagged X = concat (map (\<lambda>b. [1, b]) X)"




section \<open>Basic facts\<close>

lemma IOBuf_empty_create: "IOBuf_empty (IOBuf_create n)"
  by (simp add: IOBuf_empty_def IOBuf_create_def)

lemma known_below_sentinel:
  "n \<noteq> UNKNOWN_UNCOMPRESSED_LENGTH \<Longrightarrow> \<not> n > (- 1) - (1::uint64)"
  unfolding UNKNOWN_UNCOMPRESSED_LENGTH_def
  using less_eq_dec_iff word_order.not_eq_extremum by (metis linorder_not_less)

lemma length_check_unknown:
  "length_check c UNKNOWN_UNCOMPRESSED_LENGTH =
     (if needsUncompressedLength c
      then Some (invalid_argument ''Codec: uncompressed length required'') else None)"
  by (simp add: length_check_def)

lemma length_check_too_large:
  "n \<noteq> UNKNOWN_UNCOMPRESSED_LENGTH \<Longrightarrow> n > maxUncompressedLength c \<Longrightarrow>
   length_check c n = Some (runtime_error ''Codec: uncompressed length too large'')"
  by (simp add: length_check_def)

lemma length_check_ok:
  "n \<noteq> UNKNOWN_UNCOMPRESSED_LENGTH \<Longrightarrow> n \<le> maxUncompressedLength c \<Longrightarrow>
   length_check c n = None"
  by (simp add: length_check_def)

lemma to_string_small:
  "to_string 2 = ''2''" "to_string 3 = ''3''" "to_string 7 = ''7''" "to_string 10 = ''10''"
  by (simp_all add: to_string_def digits.simps)

lemma head_of_coalesced:
  "\<not> IOBuf_empty data \<Longrightarrow>
   IOBuf_data (if isChained data then coalesce (clone data) else data) = concat data"
  by (cases data; cases "tl data") (auto simp: isChained_def coalesce_def clone_def IOBuf_empty_def)

section \<open>The length ceiling\<close>

text \<open>
  C1 (as amended).  For every codec, \<open>uncompress\<close> with a declared length that is not
  the sentinel and exceeds \<open>maxUncompressedLength()\<close> throws
  \<open>std::runtime_error("Codec: uncompressed length too large")\<close>, the spec's
  LengthTooLarge, whatever the data and whatever the primitives \<open>P\<close>: no algorithm is
  consulted.  For the LZ4 and the snappy codec this is the case of the length
  \<open>maxUncompressedLength() + 1\<close>.  For the no-op and the zlib codec, which keep the
  default maximum, \<open>maxUncompressedLength() + 1\<close> is the sentinel itself, and the first
  statement of \<open>uncompress\<close> throws nothing.
\<close>

theorem uncompress_above_ceiling:
  "(n \<noteq> UNKNOWN_UNCOMPRESSED_LENGTH \<and> n > maxUncompressedLength c \<longrightarrow>
      uncompress P c data n = Some (Inl (runtime_error ''Codec: uncompressed length too large'')))
   \<and> uncompress P (LZ4Codec hc) data (maxUncompressedLength (LZ4Codec hc) + 1)
        = Some (Inl (runtime_error ''Codec: uncompressed length too large''))
   \<and> uncompress P SnappyCodec data (maxUncompressedLength SnappyCodec + 1)
        = Some (Inl (runtime_error ''Codec: uncompressed length too large''))
   \<and> maxUncompressedLength NoCompressionCodec + 1 = UNKNOWN_UNCOMPRESSED_LENGTH
   \<and> maxUncompressedLength (ZlibCodec lvl) + 1 = UNKNOWN_UNCOMPRESSED_LENGTH
   \<and> length_check NoCompressionCodec (maxUncompressedLength NoCompressionCodec + 1) = None
   \<and> length_check (ZlibCodec lvl) (maxUncompressedLength (ZlibCodec lvl) + 1) = None"
proof -
  have a: "n \<noteq> UNKNOWN_UNCOMPRESSED_LENGTH \<and> n > maxUncompressedLength c \<longrightarrow>
      uncompress P c data n = Some (Inl (runtime_error ''Codec: uncompressed length too large''))"
    by (simp add: uncompress_def length_check_too_large)
  have b: "uncompress P (LZ4Codec hc) data (maxUncompressedLength (LZ4Codec hc) + 1)
        = Some (Inl (runtime_error ''Codec: uncompressed length too large''))"
    by (simp add: uncompress_def length_check_def maxUncompressedLength_def
        UNKNOWN_UNCOMPRESSED_LENGTH_def)
  have c: "uncompress P SnappyCodec data (maxUncompressedLength SnappyCodec + 1)
        = Some (Inl (runtime_error ''Codec: uncompressed length too large''))"
    by (simp add: uncompress_def length_check_def maxUncompressedLength_def
        UNKNOWN_UNCOMPRESSED_LENGTH_def)
  have d: "maxUncompressedLength NoCompressionCodec + 1 = UNKNOWN_UNCOMPRESSED_LENGTH"
    "maxUncompressedLength (ZlibCodec lvl) + 1 = UNKNOWN_UNCOMPRESSED_LENGTH"
    by (simp_all add: maxUncompressedLength_def UNKNOWN_UNCOMPRESSED_LENGTH_def)
  have e: "length_check NoCompressionCodec (maxUncompressedLength NoCompressionCodec + 1) = None"
    "length_check (ZlibCodec lvl) (maxUncompressedLength (ZlibCodec lvl) + 1) = None"
    by (simp_all add: d length_check_unknown needsUncompressedLength_def)
  from a b c d e show ?thesis by blast
qed

theorem uncompress_above_ceiling_witness:
  "(4294967296 :: uint64) \<noteq> UNKNOWN_UNCOMPRESSED_LENGTH \<and>
   4294967296 > maxUncompressedLength SnappyCodec \<and>
   uncompress stored SnappyCodec [[1]] 4294967296
     = Some (Inl (runtime_error ''Codec: uncompressed length too large''))"
  using uncompress_above_ceiling [of 4294967296 SnappyCodec stored "[[1]]"]
  by (simp add: UNKNOWN_UNCOMPRESSED_LENGTH_def maxUncompressedLength_def)

text \<open>The claim as it stands fails for the no-op codec: the call with the length
  \<open>maxUncompressedLength() + 1\<close> returns a copy of the one-byte input.\<close>

theorem uncompress_above_ceiling_counterexample:
  "uncompress stored NoCompressionCodec [[1]] (maxUncompressedLength NoCompressionCodec + 1)
     = Some (Inr [[1]])"
  by (simp add: uncompress_def length_check_def maxUncompressedLength_def
      UNKNOWN_UNCOMPRESSED_LENGTH_def needsUncompressedLength_def IOBuf_empty_def
      NoCompressionCodec_doUncompress_def clone_def)

section \<open>Empty input\<close>

text \<open>
  C2 (as amended).  For every codec and every empty input chain: \<open>compress\<close> returns
  the empty chain \<open>IOBuf::create(0)\<close>; \<open>uncompress\<close> with declared length 0 returns
  the empty chain; \<open>uncompress\<close> with declared length 5 throws
  \<open>std::runtime_error("Codec: invalid uncompressed length")\<close>, the spec's
  InvalidLength; \<open>uncompress\<close> with the length unknown returns the empty chain when
  \<open>needsUncompressedLength()\<close> is false, and throws
  \<open>std::invalid_argument("Codec: uncompressed length required")\<close> when it is true
  (the LZ4 codec).
\<close>

theorem empty_input:
  "IOBuf_empty data \<Longrightarrow>
   compress P c data = Some (Inr (IOBuf_create 0))
   \<and> IOBuf_empty (IOBuf_create 0)
   \<and> uncompress P c data 0 = Some (Inr (IOBuf_create 0))
   \<and> uncompress P c data 5 = Some (Inl (runtime_error ''Codec: invalid uncompressed length''))
   \<and> (\<not> needsUncompressedLength c \<longrightarrow>
         uncompress P c data UNKNOWN_UNCOMPRESSED_LENGTH = Some (Inr (IOBuf_create 0)))
   \<and> (needsUncompressedLength c \<longrightarrow>
         uncompress P c data UNKNOWN_UNCOMPRESSED_LENGTH
           = Some (Inl (invalid_argument ''Codec: uncompressed length required'')))"
proof -
  assume empty: "IOBuf_empty data"
  have ok: "length_check c 0 = None" "length_check c 5 = None"
    by (cases c; simp add: length_check_def maxUncompressedLength_def
        UNKNOWN_UNCOMPRESSED_LENGTH_def)+
  have a: "compress P c data = Some (Inr (IOBuf_create 0))"
    using empty by (simp add: compress_def)
  have b: "uncompress P c data 0 = Some (Inr (IOBuf_create 0))"
    using empty ok by (simp add: uncompress_def)
  have c: "uncompress P c data 5 = Some (Inl (runtime_error ''Codec: invalid uncompressed length''))"
    using empty ok by (simp add: uncompress_def UNKNOWN_UNCOMPRESSED_LENGTH_def)
  have d: "\<not> needsUncompressedLength c \<longrightarrow>
           uncompress P c data UNKNOWN_UNCOMPRESSED_LENGTH = Some (Inr (IOBuf_create 0))"
    using empty by (simp add: uncompress_def length_check_unknown)
  have e: "needsUncompressedLength c \<longrightarrow>
           uncompress P c data UNKNOWN_UNCOMPRESSED_LENGTH
             = Some (Inl (invalid_argument ''Codec: uncompressed length required''))"
    by (simp add: uncompress_def length_check_unknown)
  from a b c d e IOBuf_empty_create show ?thesis by blast
qed

theorem empty_input_witness:
  "IOBuf_empty [[], []]
   \<and> compress stored (ZlibCodec 9) [[], []] = Some (Inr [[]])
   \<and> uncompress stored (ZlibCodec 9) [[], []] 0 = Some (Inr [[]])
   \<and> uncompress stored (ZlibCodec 9) [[], []] 5
       = Some (Inl (runtime_error ''Codec: invalid uncompressed length''))
   \<and> \<not> needsUncompressedLength (ZlibCodec 9)
   \<and> uncompress stored (ZlibCodec 9) [[], []] UNKNOWN_UNCOMPRESSED_LENGTH = Some (Inr [[]])
   \<and> needsUncompressedLength (LZ4Codec True)
   \<and> uncompress stored (LZ4Codec True) [[], []] UNKNOWN_UNCOMPRESSED_LENGTH
       = Some (Inl (invalid_argument ''Codec: uncompressed length required''))"
proof -
  have empty: "IOBuf_empty [[], []]" by (simp add: IOBuf_empty_def)
  show ?thesis
    using empty empty_input [OF empty, of stored "ZlibCodec 9"]
      empty_input [OF empty, of stored "LZ4Codec True"]
    by (simp add: needsUncompressedLength_def IOBuf_create_def)
qed

text \<open>The claim as it stands fails for the LZ4 codec: with the length unknown, the empty
  input is refused.\<close>

theorem empty_input_counterexample:
  "uncompress stored (LZ4Codec False) [[]] UNKNOWN_UNCOMPRESSED_LENGTH
     = Some (Inl (invalid_argument ''Codec: uncompressed length required''))"
  by (simp add: uncompress_def length_check_unknown needsUncompressedLength_def)

section \<open>The level of the LZ4 codec\<close>

lemma compress_LZ4:
  assumes ne: "\<not> IOBuf_empty data"
  shows "compress P (LZ4Codec hc) data =
     Some (case (if hc then LZ4_compress P else LZ4_compressHC P)
                 (concat data) (to_int (length (concat data))) of
             (n, dest) \<Rightarrow>
               if \<not> 0 \<le> n then Inl (check_failed ''CHECK_GE(n, 0)'')
               else if \<not> nat n \<le> to_uint32 (LZ4_compressBound P (to_int (length (concat data))))
               then Inl (check_failed ''CHECK_LE(n, out->capacity())'')
               else Inr [take (nat n) dest])"
proof -
  have "LZ4Codec_doCompress P hc data =
     (case (if hc then LZ4_compress P else LZ4_compressHC P)
                 (concat data) (to_int (length (concat data))) of
             (n, dest) \<Rightarrow>
               if \<not> 0 \<le> n then Inl (check_failed ''CHECK_GE(n, 0)'')
               else if \<not> nat n \<le> to_uint32 (LZ4_compressBound P (to_int (length (concat data))))
               then Inl (check_failed ''CHECK_LE(n, out->capacity())'')
               else Inr [take (nat n) dest])"
    unfolding LZ4Codec_doCompress_def Let_def head_of_coalesced [OF ne]
    by (cases hc) simp_all
  then show ?thesis using ne by (simp add: compress_def)
qed

text \<open>
  C3.  The LZ4 constructor turns the hints Fastest and Default into level 1, that is
  \<open>highCompression_ = false\<close>, and the hint Best into level 2, that is
  \<open>highCompression_ = true\<close>.  On a non-empty input, \<open>compress\<close> of an instance with
  \<open>highCompression_ = false\<close> returns what \<open>LZ4_compressHC\<close> writes for the coalesced
  input, and \<open>compress\<close> of an instance with \<open>highCompression_ = true\<close> returns what
  \<open>LZ4_compress\<close> writes.  Replacing the other primitive by any function \<open>f\<close> changes
  nothing: it is not the one called.
\<close>

theorem LZ4_level_routing:
  "LZ4Codec_create COMPRESSION_LEVEL_FASTEST = Inr (LZ4Codec False)
   \<and> LZ4Codec_create COMPRESSION_LEVEL_DEFAULT = Inr (LZ4Codec False)
   \<and> LZ4Codec_create COMPRESSION_LEVEL_BEST = Inr (LZ4Codec True)
   \<and> (\<not> IOBuf_empty data \<longrightarrow>
        compress P (LZ4Codec False) data =
          Some (case LZ4_compressHC P (concat data) (to_int (length (concat data))) of
                  (n, dest) \<Rightarrow>
                    if \<not> 0 \<le> n then Inl (check_failed ''CHECK_GE(n, 0)'')
                    else if \<not> nat n \<le> to_uint32 (LZ4_compressBound P (to_int (length (concat data))))
                    then Inl (check_failed ''CHECK_LE(n, out->capacity())'')
                    else Inr [take (nat n) dest])
        \<and> compress P (LZ4Codec True) data =
          Some (case LZ4_compress P (concat data) (to_int (length (concat data))) of
                  (n, dest) \<Rightarrow>
                    if \<not> 0 \<le> n then Inl (check_failed ''CHECK_GE(n, 0)'')
                    else if \<not> nat n \<le> to_uint32 (LZ4_compressBound P (to_int (length (concat data))))
                    then Inl (check_failed ''CHECK_LE(n, out->capacity())'')
                    else Inr [take (nat n) dest]))
   \<and> compress (P\<lparr>LZ4_compress := f\<rparr>) (LZ4Codec False) data = compress P (LZ4Codec False) data
   \<and> compress (P\<lparr>LZ4_compressHC := f\<rparr>) (LZ4Codec True) data = compress P (LZ4Codec True) data"
proof -
  have a: "LZ4Codec_create COMPRESSION_LEVEL_FASTEST = Inr (LZ4Codec False)"
    "LZ4Codec_create COMPRESSION_LEVEL_DEFAULT = Inr (LZ4Codec False)"
    "LZ4Codec_create COMPRESSION_LEVEL_BEST = Inr (LZ4Codec True)"
    by (simp_all add: LZ4Codec_create_def)
  have b: "compress (P\<lparr>LZ4_compress := f\<rparr>) (LZ4Codec False) data = compress P (LZ4Codec False) data"
    "compress (P\<lparr>LZ4_compressHC := f\<rparr>) (LZ4Codec True) data = compress P (LZ4Codec True) data"
    by (simp_all add: compress_def LZ4Codec_doCompress_def)
  show ?thesis
    using a b compress_LZ4 [of data P False] compress_LZ4 [of data P True] by simp
qed

theorem LZ4_level_routing_witness:
  "\<not> IOBuf_empty [[1, 2], [3]] \<and>
   compress (stored\<lparr>LZ4_compressHC := (\<lambda>source isize. (1, [7]))\<rparr>) (LZ4Codec False) [[1, 2], [3]]
     = Some (Inr [[7]]) \<and>
   compress (stored\<lparr>LZ4_compressHC := (\<lambda>source isize. (1, [7]))\<rparr>) (LZ4Codec True) [[1, 2], [3]]
     = Some (Inr [[1, 2, 3]])"
  using LZ4_level_routing [of "[[1, 2], [3]]"
      "stored\<lparr>LZ4_compressHC := (\<lambda>source isize. (1, [7]))\<rparr>"]
  by (simp add: IOBuf_empty_def stored_def stored_LZ4_compress_def to_int_def to_uint32_def)

section \<open>The LZ4 codec needs the length\<close>

text \<open>
  C5.  For the LZ4 codec, \<open>uncompress\<close> of a non-empty input with the length unknown
  throws \<open>std::invalid_argument("Codec: uncompressed length required")\<close>, the spec's
  InvalidArgument, whatever the primitives \<open>P\<close>: the algorithm is not consulted.
\<close>

theorem LZ4_needs_length:
  "\<not> IOBuf_empty data \<Longrightarrow>
   uncompress P (LZ4Codec hc) data UNKNOWN_UNCOMPRESSED_LENGTH
     = Some (Inl (invalid_argument ''Codec: uncompressed length required''))"
  by (simp add: uncompress_def length_check_unknown needsUncompressedLength_def)

theorem LZ4_needs_length_witness:
  "\<not> IOBuf_empty [[1, 2, 3]] \<and>
   uncompress stored (LZ4Codec False) [[1, 2, 3]] UNKNOWN_UNCOMPRESSED_LENGTH
     = Some (Inl (invalid_argument ''Codec: uncompressed length required''))"
proof -
  have ne: "\<not> IOBuf_empty [[1, 2, 3]]" by (simp add: IOBuf_empty_def)
  show ?thesis using ne LZ4_needs_length [OF ne, of stored False] by simp
qed

section \<open>The source adapter gives the bytes of the chain\<close>

lemma Cursor_peek_prefix: "prefix (Cursor_peek position) (concat position)"
  by (induction position) (auto intro: prefix_order.trans)

lemma Cursor_peek_nothing: "Cursor_peek position = [] \<longleftrightarrow> concat position = []"
  by (induction position) auto

lemma Cursor_skip_within:
  "n \<le> length (concat position) \<Longrightarrow>
   \<exists>moved. Cursor_skip position n = Inr moved \<and> concat moved = drop n (concat position)"
  by (induction position arbitrary: n) auto

text \<open>A reader gets the bytes from the position of the cursor on, as many as
  \<open>available_\<close> counts.\<close>

lemma pull_eq: "pull source = take (available source) (concat (cursor source))"
proof (induction m \<equiv> "available source" arbitrary: source rule: less_induct)
  case less
  let ?all = "concat (cursor source)"
  let ?n = "min (length (Peek source)) (Available source)"
  show ?case
  proof (cases "Available source = 0 \<or> ?n = 0")
    case True
    then have "available source = 0 \<or> Cursor_peek (cursor source) = []"
      by (auto simp: Available_def Peek_def min_def split: if_splits)
    then have "available source = 0 \<or> ?all = []"
      unfolding Cursor_peek_nothing .
    then have "take (available source) ?all = []"
      by (elim disjE) (simp_all only: take_0 take.simps(1))
    moreover have "pull source = []"
    proof (cases "Available source = 0")
      case True
      then show ?thesis by (subst pull.simps) simp
    next
      case False
      with \<open>Available source = 0 \<or> ?n = 0\<close> have "?n = 0" by simp
      then show ?thesis using False by (subst pull.simps) (simp add: Let_def)
    qed
    ultimately show ?thesis by simp
  next
    case False
    then have pos: "0 < ?n" "?n \<le> available source" "?n \<le> length (Peek source)"
      by (simp_all add: Available_def)
    obtain later where span: "?all = Peek source @ later"
      using Cursor_peek_prefix [of "cursor source"] by (auto simp: Peek_def prefix_def)
    then have "?n \<le> length ?all" using pos(3) by simp
    from Cursor_skip_within [OF this]
    obtain moved where moved: "Cursor_skip (cursor source) ?n = Inr moved"
      "concat moved = drop ?n ?all" by blast
    let ?rest = "\<lparr> available = available source - ?n, cursor = moved \<rparr>"
    have skip: "Skip source ?n = Inr ?rest"
      using pos(2) moved(1) by (simp add: Skip_def)
    have "available source - ?n < available source" using pos(1,2) by arith
    then have "available ?rest < available source" by simp
    from less [OF this]
    have rest: "pull ?rest = take (available source - ?n) (drop ?n ?all)"
      using moved(2) by simp
    have going: "Available source \<noteq> 0" "?n \<noteq> 0" using False by simp_all
    have "pull source = take ?n (Peek source) @ pull ?rest"
      by (subst pull.simps) (simp only: going Let_def if_False skip sum.case)
    also have "take ?n (Peek source) = take ?n ?all"
      using span pos(3) by simp
    also have "take ?n ?all @ pull ?rest = take (?n + (available source - ?n)) ?all"
      unfolding rest by (simp only: take_add)
    also have "?n + (available source - ?n) = available source" using pos(2) by simp
    finally show ?thesis .
  qed
qed





section \<open>Uncompressing with the snappy codec\<close>

lemma uncompress_snappy:
  "\<not> IOBuf_empty data \<Longrightarrow> length_check SnappyCodec n = None \<Longrightarrow>
   uncompress P SnappyCodec data n = Some (SnappyCodec_doUncompress P data n)"
  by (simp add: uncompress_def)

lemma stored_snappy_runs:
  "snappy_GetUncompressedLength stored (IOBufSnappySource [[1, 2]])
     = (False, 0, IOBufSnappySource [[1, 2]])"
  "snappy_RawUncompress stored (IOBufSnappySource [[1, 2]]) = (False, [])"
  "snappy_GetUncompressedLength stored (IOBufSnappySource [[3, 0, 0, 0, 1, 2], [], [3]])
     = (True, 3, \<lparr> available = 3, cursor = [[1, 2, 3]] \<rparr>)"
  "snappy_RawUncompress stored (IOBufSnappySource [[3, 0, 0, 0, 1, 2], [], [3]])
     = (True, [1, 2, 3])"
  "snappy_GetUncompressedLength stored (IOBufSnappySource [[3, 0, 0, 0, 1, 2]])
     = (True, 3, \<lparr> available = 2, cursor = [[1, 2]] \<rparr>)"
  "snappy_RawUncompress stored (IOBufSnappySource [[3, 0, 0, 0, 1, 2]]) = (False, [1, 2])"
  by (simp_all add: stored_def stored_snappy_GetUncompressedLength_def
      stored_snappy_RawUncompress_def IOBufSnappySource_def computeChainDataLength_def
      pull_eq Available_def)

text \<open>
  C6.  \<open>SnappyCodec::doUncompress\<close>, which \<open>uncompress\<close> runs on a non-empty input
  whose declared length passed the first check.  It asks
  \<open>snappy::GetUncompressedLength\<close> on a source made from the input for the embedded
  length \<open>actual\<close>; when that fails, it throws
  \<open>std::runtime_error("snappy::GetUncompressedLength failed")\<close>.  When the caller's
  length is known and differs from \<open>actual\<close>, it throws
  \<open>std::runtime_error("snappy: invalid uncompressed length")\<close>.  Otherwise it runs
  \<open>snappy::RawUncompress\<close> on a second source made from the input, not on the source
  \<open>consumed\<close> that the first call left behind; when that fails, it throws
  \<open>std::runtime_error("snappy::RawUncompress failed")\<close>, and when it succeeds the
  result is the first \<open>actual\<close> bytes of the destination buffer.
\<close>

theorem snappy_uncompress_steps:
  assumes "snappy_GetUncompressedLength P (IOBufSnappySource data) = (ok, actual, consumed)"
    and "snappy_RawUncompress P (IOBufSnappySource data) = (ok2, dest)"
  shows "(\<not> ok \<longrightarrow> SnappyCodec_doUncompress P data n
             = Inl (runtime_error ''snappy::GetUncompressedLength failed''))
    \<and> (ok \<and> n \<noteq> UNKNOWN_UNCOMPRESSED_LENGTH \<and> n \<noteq> ucast actual \<longrightarrow>
          SnappyCodec_doUncompress P data n
             = Inl (runtime_error ''snappy: invalid uncompressed length''))
    \<and> (ok \<and> (n = UNKNOWN_UNCOMPRESSED_LENGTH \<or> n = ucast actual) \<and> \<not> ok2 \<longrightarrow>
          SnappyCodec_doUncompress P data n
             = Inl (runtime_error ''snappy::RawUncompress failed''))
    \<and> (ok \<and> (n = UNKNOWN_UNCOMPRESSED_LENGTH \<or> n = ucast actual) \<and> ok2 \<longrightarrow>
          SnappyCodec_doUncompress P data n = Inr [take (unat actual) dest])
    \<and> (\<not> IOBuf_empty data \<and> length_check SnappyCodec n = None \<longrightarrow>
          uncompress P SnappyCodec data n = Some (SnappyCodec_doUncompress P data n))"
  using assms by (auto simp: SnappyCodec_doUncompress_def uncompress_snappy)

theorem snappy_uncompress_steps_witness:
  "SnappyCodec_doUncompress stored [[1, 2]] 2
     = Inl (runtime_error ''snappy::GetUncompressedLength failed'')
   \<and> SnappyCodec_doUncompress stored [[3, 0, 0, 0, 1, 2], [], [3]] 4
     = Inl (runtime_error ''snappy: invalid uncompressed length'')
   \<and> SnappyCodec_doUncompress stored [[3, 0, 0, 0, 1, 2]] 3
     = Inl (runtime_error ''snappy::RawUncompress failed'')
   \<and> SnappyCodec_doUncompress stored [[3, 0, 0, 0, 1, 2], [], [3]] 3 = Inr [[1, 2, 3]]
   \<and> SnappyCodec_doUncompress stored [[3, 0, 0, 0, 1, 2], [], [3]] UNKNOWN_UNCOMPRESSED_LENGTH
     = Inr [[1, 2, 3]]
   \<and> uncompress stored SnappyCodec [[3, 0, 0, 0, 1, 2], [], [3]] 3 = Some (Inr [[1, 2, 3]])"
  using snappy_uncompress_steps [OF stored_snappy_runs(1) stored_snappy_runs(2), of 2]
    snappy_uncompress_steps [OF stored_snappy_runs(3) stored_snappy_runs(4), of 4]
    snappy_uncompress_steps [OF stored_snappy_runs(5) stored_snappy_runs(6), of 3]
    snappy_uncompress_steps [OF stored_snappy_runs(3) stored_snappy_runs(4), of 3]
    snappy_uncompress_steps [OF stored_snappy_runs(3) stored_snappy_runs(4),
      of UNKNOWN_UNCOMPRESSED_LENGTH]
  by (simp add: UNKNOWN_UNCOMPRESSED_LENGTH_def IOBuf_empty_def length_check_def
      maxUncompressedLength_def)

section \<open>Levels\<close>

text \<open>
  C8.  Constructing the no-op codec with the numeric level 3 throws
  \<open>std::invalid_argument\<close>, and so does constructing the zlib codec with the numeric
  level 10, directly and through \<open>getCodec\<close>.  The numeric level 9 and the hint Best
  both construct the zlib codec with \<open>level_ = 9\<close>: the two instances are the same, and
  so are the results of their \<open>compress\<close> and \<open>uncompress\<close> on any input.
\<close>

theorem level_validation:
  "NoCompressionCodec_create (Level 3)
     = Inl (invalid_argument ''NoCompressionCodec: invalid level 3'')
   \<and> ZlibCodec_create (Level 10) = Inl (invalid_argument ''ZlibCodec: invalid level: 10'')
   \<and> getCodec NO_COMPRESSION (Level 3)
     = Inl (invalid_argument ''NoCompressionCodec: invalid level 3'')
   \<and> getCodec ZLIB (Level 10) = Inl (invalid_argument ''ZlibCodec: invalid level: 10'')
   \<and> ZlibCodec_create (Level 9) = Inr (ZlibCodec 9)
   \<and> ZlibCodec_create COMPRESSION_LEVEL_BEST = Inr (ZlibCodec 9)
   \<and> getCodec ZLIB (Level 9) = getCodec ZLIB COMPRESSION_LEVEL_BEST
   \<and> (case (ZlibCodec_create (Level 9), ZlibCodec_create COMPRESSION_LEVEL_BEST) of
         (Inr a, Inr b) \<Rightarrow>
            compress P a data = compress P b data \<and>
            uncompress P a data n = uncompress P b data n
       | _ \<Rightarrow> False)"
  by (simp add: NoCompressionCodec_create_def ZlibCodec_create_def getCodec_def
      getCodec_from_def factory_at_def gCodecFactories_def NUM_CODEC_TYPES_def
      NO_COMPRESSION_def ZLIB_def Z_DEFAULT_COMPRESSION_def to_string_small type_def)

section \<open>The no-op codec\<close>

lemma uncompress_no_op:
  "\<not> IOBuf_empty data \<Longrightarrow>
   uncompress P NoCompressionCodec data n = Some (NoCompressionCodec_doUncompress data n)"
  using known_below_sentinel [of n]
  by (simp add: uncompress_def length_check_def needsUncompressedLength_def
      maxUncompressedLength_def)

text \<open>
  C9.  For the no-op codec and a non-empty input: \<open>uncompress\<close> with a known declared
  length other than the total length of the chain throws
  \<open>std::runtime_error("NoCompressionCodec: invalid uncompressed length")\<close>, the
  spec's InvalidLength; with the total length, or with the length unknown, it returns
  the input chain, segment by segment.  The 11 bytes of "hello world" compress to
  themselves, uncompress to themselves with declared length 11, and are refused with
  declared length 5.
\<close>

theorem no_op_lengths:
  "\<not> IOBuf_empty data \<Longrightarrow>
   (n \<noteq> UNKNOWN_UNCOMPRESSED_LENGTH \<and> n \<noteq> computeChainDataLength data \<longrightarrow>
      uncompress P NoCompressionCodec data n
        = Some (Inl (runtime_error ''NoCompressionCodec: invalid uncompressed length'')))
   \<and> (n = UNKNOWN_UNCOMPRESSED_LENGTH \<or> n = computeChainDataLength data \<longrightarrow>
      uncompress P NoCompressionCodec data n = Some (Inr data))
   \<and> length hello_world = 11
   \<and> compress P NoCompressionCodec [hello_world] = Some (Inr [hello_world])
   \<and> uncompress P NoCompressionCodec [hello_world] 11 = Some (Inr [hello_world])
   \<and> uncompress P NoCompressionCodec [hello_world] 5
        = Some (Inl (runtime_error ''NoCompressionCodec: invalid uncompressed length''))"
proof -
  assume ne: "\<not> IOBuf_empty data"
  have hw: "\<not> IOBuf_empty [hello_world]" "computeChainDataLength [hello_world] = 11"
    by (simp_all add: IOBuf_empty_def hello_world_def computeChainDataLength_def)
  have a: "n \<noteq> UNKNOWN_UNCOMPRESSED_LENGTH \<and> n \<noteq> computeChainDataLength data \<longrightarrow>
      uncompress P NoCompressionCodec data n
        = Some (Inl (runtime_error ''NoCompressionCodec: invalid uncompressed length''))"
    using ne by (auto simp: uncompress_no_op NoCompressionCodec_doUncompress_def)
  have b: "n = UNKNOWN_UNCOMPRESSED_LENGTH \<or> n = computeChainDataLength data \<longrightarrow>
      uncompress P NoCompressionCodec data n = Some (Inr data)"
    using ne by (auto simp: uncompress_no_op NoCompressionCodec_doUncompress_def clone_def)
  have c: "length hello_world = 11" by (simp add: hello_world_def)
  have d: "compress P NoCompressionCodec [hello_world] = Some (Inr [hello_world])"
    using hw by (simp add: compress_def NoCompressionCodec_doCompress_def clone_def)
  have e: "uncompress P NoCompressionCodec [hello_world] 11 = Some (Inr [hello_world])"
    using hw by (simp add: uncompress_no_op NoCompressionCodec_doUncompress_def clone_def)
  have f: "uncompress P NoCompressionCodec [hello_world] 5
        = Some (Inl (runtime_error ''NoCompressionCodec: invalid uncompressed length''))"
    using hw by (simp add: uncompress_no_op NoCompressionCodec_doUncompress_def
        UNKNOWN_UNCOMPRESSED_LENGTH_def)
  from a b c d e f show ?thesis by blast
qed

theorem no_op_lengths_witness:
  "\<not> IOBuf_empty [[1, 2], [3]] \<and>
   (2 :: uint64) \<noteq> UNKNOWN_UNCOMPRESSED_LENGTH \<and> 2 \<noteq> computeChainDataLength [[1, 2], [3]] \<and>
   uncompress stored NoCompressionCodec [[1, 2], [3]] 2
     = Some (Inl (runtime_error ''NoCompressionCodec: invalid uncompressed length'')) \<and>
   (3 :: uint64) = computeChainDataLength [[1, 2], [3]] \<and>
   uncompress stored NoCompressionCodec [[1, 2], [3]] 3 = Some (Inr [[1, 2], [3]])"
proof -
  have ne: "\<not> IOBuf_empty [[1, 2], [3]]" by (simp add: IOBuf_empty_def)
  have len: "computeChainDataLength [[1, 2], [3]] = 3" by (simp add: computeChainDataLength_def)
  show ?thesis
    using no_op_lengths [OF ne, of 2 stored] no_op_lengths [OF ne, of 3 stored] ne
    by (simp add: len UNKNOWN_UNCOMPRESSED_LENGTH_def)
qed

section \<open>The registry is consistent\<close>

lemma getCodec_defined:
  "getCodec NO_COMPRESSION COMPRESSION_LEVEL_DEFAULT = Inr NoCompressionCodec"
  "getCodec LZ4 COMPRESSION_LEVEL_DEFAULT = Inr (LZ4Codec False)"
  "getCodec SNAPPY COMPRESSION_LEVEL_DEFAULT = Inr SnappyCodec"
  "getCodec ZLIB COMPRESSION_LEVEL_DEFAULT = Inr (ZlibCodec Z_DEFAULT_COMPRESSION)"
  by (simp_all add: getCodec_def getCodec_from_def factory_at_def gCodecFactories_def
      NUM_CODEC_TYPES_def NO_COMPRESSION_def LZ4_def SNAPPY_def ZLIB_def type_def
      NoCompressionCodec_create_def LZ4Codec_create_def SnappyCodec_create_def
      ZlibCodec_create_def Z_DEFAULT_COMPRESSION_def)

text \<open>
  C10.  For each of the four codec types \<open>t\<close>, \<open>getCodec(t, Default)\<close> returns a codec
  whose \<open>type()\<close> is \<open>t\<close> (so the \<open>DCHECK\<close> holds).  For a tag at or beyond
  \<open>NUM_CODEC_TYPES\<close>, and for a tag whose entry in the table is null, \<open>getCodec\<close>
  throws \<open>std::invalid_argument("Compression type <tag> not supported")\<close>.  The four
  types are the tags below \<open>NUM_CODEC_TYPES\<close>.
\<close>

theorem registry:
  "(t \<in> {NO_COMPRESSION, LZ4, SNAPPY, ZLIB} \<longrightarrow>
      (\<exists>c. getCodec t COMPRESSION_LEVEL_DEFAULT = Inr c \<and> type c = t))
   \<and> (t \<ge> NUM_CODEC_TYPES \<longrightarrow>
      getCodec t lvl = Inl (invalid_argument
         (''Compression type '' @ to_string (int t) @ '' not supported'')))
   \<and> (factory_at table t = None \<longrightarrow>
      getCodec_from table t lvl = Inl (invalid_argument
         (''Compression type '' @ to_string (int t) @ '' not supported'')))
   \<and> {NO_COMPRESSION, LZ4, SNAPPY, ZLIB} = {t. t < NUM_CODEC_TYPES}"
proof -
  have a: "t \<in> {NO_COMPRESSION, LZ4, SNAPPY, ZLIB} \<longrightarrow>
      (\<exists>c. getCodec t COMPRESSION_LEVEL_DEFAULT = Inr c \<and> type c = t)"
    by (auto simp: getCodec_defined type_def)
  have b: "t \<ge> NUM_CODEC_TYPES \<longrightarrow>
      getCodec t lvl = Inl (invalid_argument
         (''Compression type '' @ to_string (int t) @ '' not supported''))"
    by (simp add: getCodec_def getCodec_from_def)
  have c: "factory_at table t = None \<longrightarrow>
      getCodec_from table t lvl = Inl (invalid_argument
         (''Compression type '' @ to_string (int t) @ '' not supported''))"
    by (simp add: getCodec_from_def)
  have d: "{NO_COMPRESSION, LZ4, SNAPPY, ZLIB} = {t. t < NUM_CODEC_TYPES}"
    by (auto simp: NO_COMPRESSION_def LZ4_def SNAPPY_def ZLIB_def NUM_CODEC_TYPES_def)
  from a b c d show ?thesis by blast
qed

theorem registry_witness:
  "SNAPPY \<in> {NO_COMPRESSION, LZ4, SNAPPY, ZLIB} \<and>
   getCodec SNAPPY COMPRESSION_LEVEL_DEFAULT = Inr SnappyCodec \<and> type SnappyCodec = SNAPPY \<and>
   7 \<ge> NUM_CODEC_TYPES \<and>
   getCodec 7 COMPRESSION_LEVEL_DEFAULT
     = Inl (invalid_argument ''Compression type 7 not supported'') \<and>
   factory_at [Some NoCompressionCodec_create, Some LZ4Codec_create, None, None] 2 = None \<and>
   getCodec_from [Some NoCompressionCodec_create, Some LZ4Codec_create, None, None] 2
       COMPRESSION_LEVEL_DEFAULT
     = Inl (invalid_argument ''Compression type 2 not supported'')"
  using registry [of SNAPPY COMPRESSION_LEVEL_DEFAULT "[]"]
    registry [of 7 COMPRESSION_LEVEL_DEFAULT "[]"]
    registry [of 2 COMPRESSION_LEVEL_DEFAULT
      "[Some NoCompressionCodec_create, Some LZ4Codec_create, None, None]"]
  by (simp add: getCodec_defined type_def NUM_CODEC_TYPES_def factory_at_def to_string_small)

section \<open>Input after the end of a zlib stream\<close>

lemma inflate_segment_done:
  "avail_in (fst sh) = 0 \<Longrightarrow> inflate_segment P sh streamEnd = Some (sh, Inr streamEnd)"
  by (subst inflate_segment.simps) simp

lemma inflate_segment_junk:
  "avail_in (fst sh) \<noteq> 0 \<Longrightarrow>
   inflate_segment P sh True = Some (sh, Inl (runtime_error ''ZlibCodec: junk after end of data''))"
  by (subst inflate_segment.simps) simp

lemma inflate_segment_step:
  "avail_in (fst sh) \<noteq> 0 \<Longrightarrow>
   inflate_segment P sh False =
     (case doInflate P sh defaultBufferLength of
        (sh', Inl e) \<Rightarrow> Some (sh', Inl e)
      | (sh', Inr streamEnd') \<Rightarrow> inflate_segment P sh' streamEnd')"
  by (subst inflate_segment.simps) simp

lemma inflate_rest_done: "inflate_rest P sh True = Some (sh, Inr True)"
  by (subst inflate_rest.simps) simp


lemmas stored_eval =
  stored_def stored_init_def stored_inflate_def stored_deflate_def avail_in_def
  doInflate_def grow_def addOutputBuffer_def prependChain_def written_def cleared_def
  Z_OK_def Z_STREAM_END_def Z_BUF_ERROR_def Z_NEED_DICT_def Z_DATA_ERROR_def Z_MEM_ERROR_def
  Z_NO_FLUSH_def Z_FINISH_def defaultBufferLength_def maxSingleStepLength_def

lemma inflate_ranges_empties:
  "inflate_ranges P (replicate k []) sh streamEnd = Some (sh, Inr streamEnd)"
  by (induction k) simp_all

lemma inflate_ranges_append:
  "inflate_ranges P (pre @ post) sh streamEnd =
     (case inflate_ranges P pre sh streamEnd of
        None \<Rightarrow> None
      | Some (sh', Inl e) \<Rightarrow> Some (sh', Inl e)
      | Some (sh', Inr streamEnd') \<Rightarrow> inflate_ranges P post sh' streamEnd')"
proof (induction pre arbitrary: sh streamEnd)
  case Nil
  show ?case by simp
next
  case (Cons seg pre)
  show ?case
  proof (cases "seg = []")
    case True
    then show ?thesis using Cons.IH by simp
  next
    case False
    show ?thesis
    proof (cases "inflate_segment P ((fst sh)\<lparr>next_in := seg\<rparr>, snd sh) streamEnd")
      case None
      then show ?thesis using False by simp
    next
      case (Some r)
      obtain sh' res where r: "r = (sh', res)" by (cases r)
      show ?thesis using False Some r Cons.IH by (cases res) simp_all
    qed
  qed
qed

lemma scope_exit_thrown:
  "rc = Z_OK \<or> rc = Z_DATA_ERROR \<Longrightarrow> scope_exit rc (Inl (runtime_error m)) = Inl (runtime_error m)"
  by (auto simp: scope_exit_def end_check_def)

lemma scope_exit_not_junk:
  "r \<noteq> Inl e \<Longrightarrow> e = runtime_error m \<Longrightarrow> scope_exit rc r \<noteq> Inl e"
  by (auto simp: scope_exit_def end_check_def split: sum.splits failure.splits)

lemma stored_fed:
  "inflateInit stored = (Z_OK, stored_init)"
  "inflate_start (cleared stored_init) 1 = Inr (stored_init\<lparr>avail_out := 1\<rparr>, [[]])"
  "inflate_ranges stored [[1, 65], [0]] (stored_init\<lparr>avail_out := 1\<rparr>, [[]]) False =
     Some ((\<lparr>next_in = [], avail_out = 4194304, total_in = 3, total_out = 1, msg = [],
             zstate = \<lparr>pend = [], data_next = False, ended = True\<rparr>\<rparr>, [[65], []]), Inr True)"
  by (simp_all add: inflate_start_def UNKNOWN_UNCOMPRESSED_LENGTH_def
      inflate_segment_done inflate_segment_step stored_eval)

lemma stored_inflateEnd: "inflateEnd stored s = Z_OK"
  by (simp add: stored_def Z_OK_def)

text \<open>
  C7.  \<open>ZlibCodec::doUncompress\<close> on a chain \<open>pre @ post\<close>, where feeding the segments
  \<open>pre\<close> from the initial state \<open>sh0\<close> has ended with \<open>inflate\<close> returning
  \<open>Z_STREAM_END\<close> (\<open>streamEnd = true\<close>, state \<open>sh\<close>).  When \<open>post\<close> holds a
  non-empty segment \<open>seg\<close>, after any number \<open>k\<close> of empty ones, the call throws
  \<open>std::runtime_error("ZlibCodec: junk after end of data")\<close>, the spec's RuntimeError
  for junk after the end of the stream, provided \<open>inflateEnd\<close> in the cleanup returns
  \<open>Z_OK\<close> or \<open>Z_DATA_ERROR\<close> (any other code aborts).  When \<open>post\<close> is \<open>k\<close> empty
  segments, the call ends as it does without them: with the output chain, or with the
  error of the final length check, and not with the junk error.
\<close>

theorem zlib_junk_after_end:
  assumes init: "inflateInit P = (Z_OK, stream0)"
    and start: "inflate_start (cleared stream0) n = Inr sh0"
    and fed: "inflate_ranges P pre sh0 False = Some (sh, Inr True)"
  shows "(seg \<noteq> [] \<and>
          (inflateEnd P ((fst sh)\<lparr>next_in := seg\<rparr>) = Z_OK \<or>
           inflateEnd P ((fst sh)\<lparr>next_in := seg\<rparr>) = Z_DATA_ERROR) \<longrightarrow>
            ZlibCodec_doUncompress P (pre @ replicate k [] @ seg # rest) n
              = Some (Inl (runtime_error ''ZlibCodec: junk after end of data'')))
     \<and> ZlibCodec_doUncompress P (pre @ replicate k []) n
          = Some (scope_exit (inflateEnd P (fst sh))
               (if n \<noteq> UNKNOWN_UNCOMPRESSED_LENGTH \<and> unat n \<noteq> total_out (fst sh)
                then Inl (runtime_error ''ZlibCodec: invalid uncompressed length'')
                else Inr (snd sh)))
     \<and> ZlibCodec_doUncompress P (pre @ replicate k []) n
          \<noteq> Some (Inl (runtime_error ''ZlibCodec: junk after end of data''))"
proof -
  have a: "inflate_ranges P (pre @ replicate k [] @ seg # rest) sh0 False =
        Some (((fst sh)\<lparr>next_in := seg\<rparr>, snd sh),
              Inl (runtime_error ''ZlibCodec: junk after end of data''))" if "seg \<noteq> []"
    using that fed
    by (simp add: inflate_ranges_append inflate_ranges_empties inflate_segment_junk avail_in_def)
  have b: "inflate_ranges P (pre @ replicate k []) sh0 False = Some (sh, Inr True)"
    using fed by (simp add: inflate_ranges_append inflate_ranges_empties)
  have junk: "ZlibCodec_doUncompress P (pre @ replicate k [] @ seg # rest) n
              = Some (Inl (runtime_error ''ZlibCodec: junk after end of data''))"
    if "seg \<noteq> []" and "inflateEnd P ((fst sh)\<lparr>next_in := seg\<rparr>) = Z_OK \<or>
           inflateEnd P ((fst sh)\<lparr>next_in := seg\<rparr>) = Z_DATA_ERROR"
    using that(2) init start a [OF that(1)]
    by (simp add: ZlibCodec_doUncompress_def inflate_body_def scope_exit_thrown)
  have res: "ZlibCodec_doUncompress P (pre @ replicate k []) n
          = Some (scope_exit (inflateEnd P (fst sh))
               (if n \<noteq> UNKNOWN_UNCOMPRESSED_LENGTH \<and> unat n \<noteq> total_out (fst sh)
                then Inl (runtime_error ''ZlibCodec: invalid uncompressed length'')
                else Inr (snd sh)))"
    using init start b by (simp add: ZlibCodec_doUncompress_def inflate_body_def inflate_rest_done)
  have "ZlibCodec_doUncompress P (pre @ replicate k []) n
          \<noteq> Some (Inl (runtime_error ''ZlibCodec: junk after end of data''))"
    unfolding res by (simp add: scope_exit_not_junk)
  with junk res show ?thesis by simp
qed

theorem zlib_junk_after_end_witness:
  "ZlibCodec_doUncompress stored ([[1, 65], [0]] @ replicate 2 [] @ [7] # [[8]]) 1
     = Some (Inl (runtime_error ''ZlibCodec: junk after end of data''))
   \<and> ZlibCodec_doUncompress stored ([[1, 65], [0]] @ replicate 2 []) 1 = Some (Inr [[65], []])"
  using zlib_junk_after_end [OF stored_fed, of "[7]" 2 "[[8]]"]
  by (simp add: stored_inflateEnd UNKNOWN_UNCOMPRESSED_LENGTH_def scope_exit_def end_check_def
      del: replicate.simps append.simps)

section \<open>Round trips\<close>

subsection \<open>Declared lengths\<close>






subsection \<open>No compression, LZ4 and snappy\<close>




text \<open>
  What the contract asks of the size: at 4000000000 bytes, within the ceiling of the
  snappy codec, the bound 4666666698 of \<open>MaxCompressedLength\<close> does not fit 32
  bits, the output segment is created with 371699402 bytes, and a compressor that
  writes 4000000004 bytes, within its bound, fails the check on the capacity.
\<close>

lemma snappy_segment_cut:
  "snappy_MaxCompressedLength stored 4000000000 = 4666666698"
  "size_to_uint32 4666666698 = 371699402"
  "compress stored SnappyCodec [replicate 4000000000 65]
     = Some (Inl (check_failed ''CHECK_LE(n, out->capacity())''))"
proof -
  show "snappy_MaxCompressedLength stored 4000000000 = 4666666698"
    by (simp add: stored_def)
  show cut: "size_to_uint32 4666666698 = 371699402"
    by (simp add: size_to_uint32_def)
  have "fst (snappy_Compress stored (IOBufSnappySource [replicate 4000000000 65]))
          = 4000000004"
    by (simp add: stored_def stored_snappy_Compress_def Let_def IOBufSnappySource_def
        Available_def computeChainDataLength_def)
  moreover have "Available (IOBufSnappySource [replicate 4000000000 65]) = 4000000000"
    by (simp add: IOBufSnappySource_def Available_def computeChainDataLength_def)
  moreover have "snappy_MaxCompressedLength stored 4000000000 = 4666666698"
    by (simp add: stored_def)
  ultimately have "SnappyCodec_doCompress stored [replicate 4000000000 65]
          = Inl (check_failed ''CHECK_LE(n, out->capacity())'')"
    by (simp add: SnappyCodec_doCompress_def Let_def cut split_beta)
  then show "compress stored SnappyCodec [replicate 4000000000 65]
     = Some (Inl (check_failed ''CHECK_LE(n, out->capacity())''))"
    by (simp add: compress_def IOBuf_empty_def)
qed

subsection \<open>The deflate loops return a complete stream\<close>














subsection \<open>The inflate loops return the data\<close>






subsection \<open>The stored-format zlib keeps the contracts\<close>

lemma tagged_simps [simp]:
  "tagged [] = []" "tagged (x # X) = 1 # x # tagged X" "tagged (X @ Y) = tagged X @ tagged Y"
  by (simp_all add: tagged_def)

lemma stored_fields [simp]:
  "deflateInit stored lvl = (Z_OK, stored_init)" "inflateInit stored = (Z_OK, stored_init)"
  "deflate stored = stored_deflate" "inflate stored = stored_inflate"
  "inflateEnd stored s = Z_OK"
  "deflateEnd stored s = (if ended (zstate s) \<and> pend (zstate s) = [] then Z_OK else Z_DATA_ERROR)"
  by (simp_all add: stored_def Z_OK_def)







subsection \<open>Zlib\<close>


subsection \<open>All four codecs\<close>






end
